theory Spec2Isabelle
  imports Main
begin

section \<open>Go values used by the admission webhook\<close>

text \<open>
  Go strings and byte slices are byte sequences: both are \<open>string\<close> here.
  A Go \<open>error\<close> is an interface value that may be nil: \<open>error option\<close>, with
  \<open>None\<close> for nil. The three ways the package builds or receives an error:
  \<^item> \<open>fmt.Errorf\<close> / \<open>errors.Errorf\<close>: an error whose text is the formatted message;
  \<^item> \<open>errors.Wrap err msg\<close> (github.com/pkg/errors): text \<open>msg: err.Error()\<close>;
  \<^item> an error handed over by a collaborator (body reader, decoder, json), known by its text.
\<close>

datatype error = Errorf string | Wrap error string | Foreign string

fun Error :: "error \<Rightarrow> string" where
  "Error (Errorf s) = s"
| "Error (Wrap e msg) = msg @ '': '' @ Error e"
| "Error (Foreign s) = s"

text \<open>A call either returns or panics (a nil pointer is dereferenced).\<close>

datatype panic = NilPointerDereference

datatype 'a outcome = Panic panic | Return 'a

fun bind_outcome :: "'a outcome \<Rightarrow> ('a \<Rightarrow> 'b outcome) \<Rightarrow> 'b outcome" where
  "bind_outcome (Panic p) f = Panic p"
| "bind_outcome (Return x) f = f x"

subsection \<open>The admission review envelope (k8s.io/api/admission/v1, fields the code reads or writes)\<close>

record group_version_resource =
  Group :: string
  Version :: string
  Resource :: string

record raw_extension =
  Raw :: string

record admission_request =
  Request_UID :: string
  Request_Resource :: group_version_resource
  Request_Object :: raw_extension

record status =
  Status :: string
  Message :: string

record admission_response =
  Response_UID :: string
  Allowed :: bool
  Result :: "status option"

record admission_review =
  APIVersion :: string
  Kind :: string
  Request :: "admission_request option"
  Response :: "admission_response option"

definition StatusFailure :: string where
  "StatusFailure = ''Failure''"

text \<open>The zero value of \<open>var req, resp v1.AdmissionReview\<close>.\<close>

definition zero_review :: admission_review where
  "zero_review = \<lparr>APIVersion = [], Kind = [], Request = None, Response = None\<rparr>"

section \<open>Decision mapper\<close>

text \<open>
  \<open>toAdmissionResponse(err error)\<close> calls \<open>err.Error()\<close>; on a nil interface
  that call panics. Every call site passes a non-nil error.
\<close>

fun toAdmissionResponse :: "error option \<Rightarrow> admission_response outcome" where
  "toAdmissionResponse None = Panic NilPointerDereference"
| "toAdmissionResponse (Some err) =
     Return \<lparr>Response_UID = [], Allowed = False,
             Result = Some \<lparr>Status = StatusFailure, Message = Error err\<rparr>\<rparr>"

section \<open>Resource validators\<close>

text \<open>
  The monitoring resources (package \<open>apis/monitoring/v1alpha1\<close>), as far as the
  validators read them: \<open>Spec.TargetLabels.FromPod\<close> and \<open>Spec.TargetLabels.FromService\<close>,
  lists of label mappings in declaration order. \<open>PodMonitoring\<close> and \<open>ServiceMonitoring\<close>
  have the same shape in these fields; the pod validator never reads \<open>FromService\<close>.
\<close>

record label_mapping =
  From :: string
  To :: string

record target_labels =
  FromPod :: "label_mapping list"
  FromService :: "label_mapping list"

record monitoring_spec =
  TargetLabels :: target_labels

record monitoring =
  Spec :: monitoring_spec

type_synonym pod_monitoring = monitoring

type_synonym service_monitoring = monitoring

text \<open>
  What the validators take from outside this file: the two expected resource identities
  (\<open>v1alpha1.PodMonitoringResource()\<close>, \<open>v1alpha1.ServiceMonitoringResource()\<close>), the two
  label prefixes, \<open>json.Unmarshal\<close> into a fresh \<open>PodMonitoring\<close> or \<open>ServiceMonitoring\<close>,
  and the compilation of one label mapping into a relabeling configuration of type \<open>'c\<close>.
\<close>

record 'c validator_env =
  PodMonitoringResource :: group_version_resource
  ServiceMonitoringResource :: group_version_resource
  podLabelPrefix :: string
  serviceLabelPrefix :: string
  Unmarshal_PodMonitoring :: "string \<Rightarrow> error + pod_monitoring"
  Unmarshal_ServiceMonitoring :: "string \<Rightarrow> error + service_monitoring"
  relabelConfig :: "string \<Rightarrow> label_mapping \<Rightarrow> error + 'c"

text \<open>
  Modelled from the spec: \<open>labelMappingRelabelConfigs\<close> (package \<open>operator\<close>, not among the
  sources). "Every Label Mapping Rule [...] must independently compile into a valid
  relabeling configuration"; "validation of a rule set fails fast on the first invalid rule
  and reports which rule and why". Whether one rule compiles under a prefix is the
  parameter \<open>compile\<close>.
\<close>

fun labelMappingRelabelConfigs ::
  "(string \<Rightarrow> label_mapping \<Rightarrow> error + 'c) \<Rightarrow> label_mapping list \<Rightarrow> string \<Rightarrow> error + 'c list" where
  "labelMappingRelabelConfigs compile [] prefix = Inr []"
| "labelMappingRelabelConfigs compile (m # ms) prefix =
     (case compile prefix m of
        Inl err \<Rightarrow> Inl err
      | Inr c \<Rightarrow>
          (case labelMappingRelabelConfigs compile ms prefix of
             Inl err \<Rightarrow> Inl err
           | Inr cs \<Rightarrow> Inr (c # cs)))"

text \<open>A rule is valid under a prefix when it compiles.\<close>

definition rule_valid ::
  "(string \<Rightarrow> label_mapping \<Rightarrow> error + 'c) \<Rightarrow> string \<Rightarrow> label_mapping \<Rightarrow> bool" where
  "rule_valid compile prefix m = (case compile prefix m of Inl _ \<Rightarrow> False | Inr _ \<Rightarrow> True)"

text \<open>
  \<open>%v\<close> of a \<open>metav1.GroupVersionResource\<close> passed by value: its \<open>String\<close> method has a
  pointer receiver, so \<open>fmt\<close> prints the struct's fields between braces.
\<close>

definition Sprint_v :: "group_version_resource \<Rightarrow> string" where
  "Sprint_v r = ''{'' @ Group r @ '' '' @ Version r @ '' '' @ Resource r @ ''}''"

type_synonym admitFn = "admission_review \<Rightarrow> (admission_response option \<times> error option) outcome"

text \<open>
  \<open>ar.Request\<close> is a pointer: reading \<open>ar.Request.Resource\<close> when it is nil panics.
  The \<open>if / else if\<close> chain returns at the first failing step.
\<close>

definition admitPodMonitoring :: "'c validator_env \<Rightarrow> admitFn" where
  "admitPodMonitoring env ar =
     (case Request ar of
        None \<Rightarrow> Panic NilPointerDereference
      | Some rq \<Rightarrow>
          if Request_Resource rq \<noteq> PodMonitoringResource env then
            Return (None, Some (Errorf (''expected resource to be '' @
              Sprint_v (PodMonitoringResource env) @ '', but received '' @
              Sprint_v (Request_Resource rq))))
          else
            (case Unmarshal_PodMonitoring env (Raw (Request_Object rq)) of
               Inl err \<Rightarrow>
                 Return (None, Some (Wrap err ''unmarshalling admission request to podmonitoring''))
             | Inr pm \<Rightarrow>
                 (case labelMappingRelabelConfigs (relabelConfig env)
                         (FromPod (TargetLabels (Spec pm))) (podLabelPrefix env) of
                    Inl err \<Rightarrow> Return (None, Some (Wrap err ''checking label mappings''))
                  | Inr _ \<Rightarrow>
                      Return (Some \<lparr>Response_UID = [], Allowed = True, Result = None\<rparr>, None))))"

definition admitServiceMonitoring :: "'c validator_env \<Rightarrow> admitFn" where
  "admitServiceMonitoring env ar =
     (case Request ar of
        None \<Rightarrow> Panic NilPointerDereference
      | Some rq \<Rightarrow>
          if Request_Resource rq \<noteq> ServiceMonitoringResource env then
            Return (None, Some (Errorf (''expected resource to be '' @
              Sprint_v (ServiceMonitoringResource env) @ '', but received '' @
              Sprint_v (Request_Resource rq))))
          else
            (case Unmarshal_ServiceMonitoring env (Raw (Request_Object rq)) of
               Inl err \<Rightarrow>
                 Return (None, Some (Wrap err ''unmarshalling admission request to servicemonitoring''))
             | Inr sm \<Rightarrow>
                 (case labelMappingRelabelConfigs (relabelConfig env)
                         (FromPod (TargetLabels (Spec sm))) (podLabelPrefix env) of
                    Inl err \<Rightarrow> Return (None, Some (Wrap err ''checking pod label mappings''))
                  | Inr _ \<Rightarrow>
                      (case labelMappingRelabelConfigs (relabelConfig env)
                              (FromService (TargetLabels (Spec sm))) (serviceLabelPrefix env) of
                         Inl err \<Rightarrow> Return (None, Some (Wrap err ''checking service label mappings''))
                       | Inr _ \<Rightarrow>
                           Return (Some \<lparr>Response_UID = [], Allowed = True, Result = None\<rparr>, None)))))"

section \<open>Admission protocol handler\<close>

text \<open>
  The HTTP request as the handler reads it: \<open>Body\<close> is the result of
  \<open>ioutil.ReadAll(r.Body)\<close>. The server's decoder writes through the pointer \<open>&req\<close>:
  it is given the bytes and the current contents of \<open>req\<close> and yields its error and the
  contents of \<open>req\<close> after the call. A validator only reads the review it is given.
\<close>

record http_request =
  Method :: string
  Host :: string
  Path :: string
  Body :: "error + string"

record AdmissionServer =
  decoder :: "string \<Rightarrow> admission_review \<Rightarrow> error option \<times> admission_review"

datatype log_level = LevelDebug | LevelError

type_synonym log_entry = "log_level \<times> (string \<times> string) list"

text \<open>
  What one run of the handler closure leaves behind: the envelope \<open>resp\<close> handed to
  \<open>json.Marshal\<close>, the bytes handed to \<open>w.Write\<close> (if marshalling succeeded), and the
  entries logged, in order.
\<close>

record handler_result =
  envelope :: admission_review
  written :: "string option"
  logged :: "log_entry list"

text \<open>Lines 47 to 60: read, decode and evaluate; yields \<open>req\<close>, \<open>resp\<close> and the log entry made.\<close>

definition evaluate ::
  "AdmissionServer \<Rightarrow> admitFn \<Rightarrow> http_request \<Rightarrow>
     (admission_review \<times> admission_review \<times> log_entry list) outcome" where
  "evaluate a admit r =
     (case Body r of
        Inl err \<Rightarrow>
          bind_outcome (toAdmissionResponse (Some err)) (\<lambda>d.
            Return (zero_review, zero_review\<lparr>Response := Some d\<rparr>,
              [(LevelError, [(''msg'', ''reading request body''), (''err'', Error err)])]))
      | Inr data \<Rightarrow>
          (case decoder a data zero_review of
             (Some err, req) \<Rightarrow>
               bind_outcome (toAdmissionResponse (Some err)) (\<lambda>d.
                 Return (req, zero_review\<lparr>Response := Some d\<rparr>,
                   [(LevelError, [(''msg'', ''decoding request body''), (''err'', Error err)])]))
           | (None, req) \<Rightarrow>
               bind_outcome (admit req) (\<lambda>(ar, e).
                 case e of
                   Some err \<Rightarrow>
                     bind_outcome (toAdmissionResponse (Some err)) (\<lambda>d.
                       Return (req, zero_review\<lparr>Response := Some d\<rparr>,
                         [(LevelError, [(''msg'', ''admitting admission request''),
                                        (''err'', Error err)])]))
                 | None \<Rightarrow> Return (req, zero_review\<lparr>Response := ar\<rparr>, []))))"

text \<open>
  Lines 63 to 67: the identity echo, under the guard \<open>req.Request != nil\<close>. The store to
  \<open>resp.Response.UID\<close> panics when \<open>resp.Response\<close> is nil.
\<close>

definition echo :: "admission_review \<Rightarrow> admission_review \<Rightarrow> admission_review outcome" where
  "echo req resp =
     (case Request req of
        None \<Rightarrow> Return resp
      | Some rq \<Rightarrow>
          (case Response resp of
             None \<Rightarrow> Panic NilPointerDereference
           | Some d \<Rightarrow>
               Return (resp\<lparr>APIVersion := APIVersion req, Kind := Kind req,
                            Response := Some (d\<lparr>Response_UID := Request_UID rq\<rparr>)\<rparr>)))"

text \<open>Lines 70 to 74: marshal and write; failures are logged only.\<close>

definition respond ::
  "(admission_review \<Rightarrow> error + string) \<Rightarrow> (string \<Rightarrow> error option) \<Rightarrow>
     admission_review \<Rightarrow> log_entry list \<Rightarrow> handler_result" where
  "respond marshal write resp lg =
     (case marshal resp of
        Inl err \<Rightarrow>
          \<lparr>envelope = resp, written = None,
           logged = lg @ [(LevelError, [(''msg'', ''encoding response body''), (''err'', Error err)])]\<rparr>
      | Inr respBytes \<Rightarrow>
          (case write respBytes of
             Some err \<Rightarrow>
               \<lparr>envelope = resp, written = Some respBytes,
                logged = lg @ [(LevelError, [(''msg'', ''writing response body''), (''err'', Error err)])]\<rparr>
           | None \<Rightarrow> \<lparr>envelope = resp, written = Some respBytes, logged = lg\<rparr>))"

definition serveAdmission ::
  "AdmissionServer \<Rightarrow> admitFn \<Rightarrow> (admission_review \<Rightarrow> error + string) \<Rightarrow>
     (string \<Rightarrow> error option) \<Rightarrow> http_request \<Rightarrow> handler_result outcome" where
  "serveAdmission a admit marshal write r =
     bind_outcome (evaluate a admit r) (\<lambda>(req, resp, lg).
       bind_outcome (echo req resp) (\<lambda>resp'.
         Return (respond marshal write resp'
           ((LevelDebug, [(''msg'', ''webhook called''), (''method'', Method r),
                          (''host'', Host r), (''path'', Path r)]) # lg))))"

section \<open>Logger setup (cmd/operator/main.go)\<close>

definition logLevelDebug :: string where "logLevelDebug = ''debug''"
definition logLevelInfo :: string where "logLevelInfo = ''info''"
definition logLevelWarn :: string where "logLevelWarn = ''warn''"
definition logLevelError :: string where "logLevelError = ''error''"

definition validLogLevels :: "string list" where
  "validLogLevels = [logLevelDebug, logLevelInfo, logLevelWarn, logLevelError]"

fun strings_Join :: "string list \<Rightarrow> string \<Rightarrow> string" where
  "strings_Join [] sep = []"
| "strings_Join [x] sep = x"
| "strings_Join (x # y # ys) sep = x @ sep @ strings_Join (y # ys) sep"

text \<open>
  A go-kit logger is the term of the constructor calls that built it. The two klog
  packages hold a logger and a clamp level each, set by \<open>SetLogger\<close> and \<open>ClampLevel\<close>.
\<close>

datatype level_option = AllowDebug | AllowInfo | AllowWarn | AllowError

datatype log_value = Text string | DefaultTimestampUTC | DefaultCaller | Caller nat

datatype logger =
    NewLogfmtLogger_Stderr
  | NewFilter logger level_option
  | With logger "(string \<times> log_value) list"

record klog =
  klogv1_logger :: "logger option"
  klogv1_clamp :: "nat option"
  klogv2_logger :: "logger option"
  klogv2_clamp :: "nat option"

text \<open>
  \<open>quote\<close> is \<open>%q\<close> of \<open>fmt\<close> on a string (\<open>strconv.Quote\<close>). The \<open>switch\<close> tries its
  cases in order; the default case returns a nil logger and leaves klog untouched.
\<close>

definition setupLogger ::
  "(string \<Rightarrow> string) \<Rightarrow> string \<Rightarrow> klog \<Rightarrow> (logger option \<times> error option) \<times> klog" where
  "setupLogger quote lvl k =
     (let logger = NewLogfmtLogger_Stderr;
          filtered =
            (if lvl = logLevelDebug then Some (NewFilter logger AllowDebug)
             else if lvl = logLevelInfo then Some (NewFilter logger AllowInfo)
             else if lvl = logLevelWarn then Some (NewFilter logger AllowWarn)
             else if lvl = logLevelError then Some (NewFilter logger AllowError)
             else None)
      in case filtered of
           None \<Rightarrow>
             ((None, Some (Errorf (''log level '' @ quote lvl @ '' unknown, must be one of ('' @
                 strings_Join validLogLevels '', '' @ '')''))), k)
         | Some logger \<Rightarrow>
             (let logger = With logger [(''ts'', DefaultTimestampUTC)];
                  runtime = With logger [(''component'', Text ''k8s_client_runtime''),
                                         (''caller'', Caller 4)];
                  k' = k\<lparr>klogv1_logger := Some runtime, klogv2_logger := Some runtime,
                         klogv1_clamp := Some 6, klogv2_clamp := Some 6\<rparr>;
                  logger = With logger [(''caller'', DefaultCaller)]
              in ((Some logger, None), k')))"

section \<open>Concrete collaborators for the worked examples\<close>

text \<open>
  The examples below run the handler and the validators on concrete inputs. They need a
  concrete decoder, deserializer, rule compiler, marshaller and writer; these stand for
  the external libraries and are used by the examples only.
\<close>

definition example_pod_resource :: group_version_resource where
  "example_pod_resource =
     \<lparr>Group = ''monitoring.googleapis.com'', Version = ''v1alpha1'', Resource = ''podmonitorings''\<rparr>"

definition example_service_resource :: group_version_resource where
  "example_service_resource =
     \<lparr>Group = ''monitoring.googleapis.com'', Version = ''v1alpha1'', Resource = ''servicemonitorings''\<rparr>"

definition example_other_resource :: group_version_resource where
  "example_other_resource = \<lparr>Group = ''apps'', Version = ''v1'', Resource = ''deployments''\<rparr>"

text \<open>A rule compiles unless its source key is empty; the error names the rule's target.\<close>

definition example_compile :: "string \<Rightarrow> label_mapping \<Rightarrow> error + (string \<times> string)" where
  "example_compile prefix m =
     (if From m = [] then Inl (Errorf (''empty source for '' @ To m))
      else Inr (prefix @ From m, To m))"

definition example_monitoring :: "label_mapping list \<Rightarrow> label_mapping list \<Rightarrow> pod_monitoring" where
  "example_monitoring pod svc = \<lparr>Spec = \<lparr>TargetLabels = \<lparr>FromPod = pod, FromService = svc\<rparr>\<rparr>\<rparr>"

definition rule_app :: label_mapping where
  "rule_app = \<lparr>From = ''app'', To = ''app''\<rparr>"

definition rule_bad1 :: label_mapping where
  "rule_bad1 = \<lparr>From = [], To = ''first''\<rparr>"

definition rule_bad2 :: label_mapping where
  "rule_bad2 = \<lparr>From = [], To = ''second''\<rparr>"

text \<open>Four payloads are understood; any other is a syntax error.\<close>

definition example_unmarshal :: "string \<Rightarrow> error + pod_monitoring" where
  "example_unmarshal raw =
     (if raw = ''valid'' then Inr (example_monitoring [rule_app] [rule_app])
      else if raw = ''bad-service-rule'' then Inr (example_monitoring [rule_app] [rule_app, rule_bad1])
      else if raw = ''bad-pod-rules'' then
        Inr (example_monitoring [rule_app, rule_bad1, rule_bad2] [rule_bad2])
      else Inl (Foreign ''invalid character''))"

definition example_env :: "(string \<times> string) validator_env" where
  "example_env =
     \<lparr>PodMonitoringResource = example_pod_resource,
      ServiceMonitoringResource = example_service_resource,
      podLabelPrefix = ''__meta_kubernetes_pod_label_'',
      serviceLabelPrefix = ''__meta_kubernetes_service_label_'',
      Unmarshal_PodMonitoring = example_unmarshal,
      Unmarshal_ServiceMonitoring = example_unmarshal,
      relabelConfig = example_compile\<rparr>"

definition example_request :: "string \<Rightarrow> group_version_resource \<Rightarrow> string \<Rightarrow> admission_request" where
  "example_request uid res raw =
     \<lparr>Request_UID = uid, Request_Resource = res, Request_Object = \<lparr>Raw = raw\<rparr>\<rparr>"

definition example_review :: "admission_request option \<Rightarrow> admission_review" where
  "example_review rq =
     \<lparr>APIVersion = ''admission.k8s.io/v1'', Kind = ''AdmissionReview'', Request = rq,
      Response = None\<rparr>"

text \<open>
  A decoder over four bodies. On \<open>type-error\<close> it behaves as a field-by-field JSON decoder
  does: it reports the error after having filled in the fields it could read. On any
  other unknown body it fails without touching \<open>into\<close>.
\<close>

definition example_decoder :: "string \<Rightarrow> admission_review \<Rightarrow> error option \<times> admission_review" where
  "example_decoder data into =
     (if data = ''pod-valid'' then
        (None, example_review (Some (example_request ''uid-1'' example_pod_resource ''valid'')))
      else if data = ''pod-bad-rules'' then
        (None, example_review (Some (example_request ''uid-2'' example_pod_resource ''bad-pod-rules'')))
      else if data = ''no-request'' then
        (None, example_review None)
      else if data = ''type-error'' then
        (Some (Foreign ''cannot unmarshal number into field of type string''),
         example_review (Some (example_request ''uid-3'' example_pod_resource [])))
      else (Some (Foreign ''invalid character''), into))"

definition example_server :: AdmissionServer where
  "example_server = \<lparr>decoder = example_decoder\<rparr>"

definition example_marshal :: "admission_review \<Rightarrow> error + string" where
  "example_marshal resp = Inr (APIVersion resp @ ''/'' @ Kind resp)"

definition example_write :: "string \<Rightarrow> error option" where
  "example_write respBytes = None"

definition example_http :: "string \<Rightarrow> http_request" where
  "example_http data =
     \<lparr>Method = ''POST'', Host = ''operator'', Path = ''/validate'', Body = Inr data\<rparr>"

text \<open>A validator that allows every review without reading it.\<close>

definition admit_always :: admitFn where
  "admit_always ar = Return (Some \<lparr>Response_UID = [], Allowed = True, Result = None\<rparr>, None)"

text \<open>\<open>strconv.Quote\<close> on printable ASCII without quotes or backslashes.\<close>

definition example_quote :: "string \<Rightarrow> string" where
  "example_quote s = CHR 0x22 # s @ [CHR 0x22]"

definition klog_initial :: klog where
  "klog_initial = \<lparr>klogv1_logger = None, klogv1_clamp = None,
                   klogv2_logger = None, klogv2_clamp = None\<rparr>"

section \<open>Properties\<close>

subsection \<open>Rule sets\<close>

lemma rules_all_valid:
  "\<forall>m \<in> set ms. rule_valid compile prefix m \<Longrightarrow>
     \<exists>cs. labelMappingRelabelConfigs compile ms prefix = Inr cs"
  by (induction ms) (auto simp: rule_valid_def split: sum.splits)

lemma rules_first_invalid:
  "\<forall>x \<in> set pre. rule_valid compile prefix x \<Longrightarrow> compile prefix m = Inl e \<Longrightarrow>
     labelMappingRelabelConfigs compile (pre @ m # post) prefix = Inl e"
  by (induction pre) (auto simp: rule_valid_def split: sum.splits)

lemma rules_some_invalid:
  "\<exists>m \<in> set ms. \<not> rule_valid compile prefix m \<Longrightarrow>
     \<exists>pre m post e. ms = pre @ m # post \<and> (\<forall>x \<in> set pre. rule_valid compile prefix x) \<and>
        compile prefix m = Inl e"
proof (induction ms)
  case Nil
  then show ?case by simp
next
  case (Cons a ms)
  show ?case
  proof (cases "compile prefix a")
    case (Inl e)
    then have "a # ms = [] @ a # ms \<and> (\<forall>x \<in> set []. rule_valid compile prefix x) \<and> compile prefix a = Inl e"
      by simp
    then show ?thesis by blast
  next
    case (Inr c)
    then have va: "rule_valid compile prefix a" by (simp add: rule_valid_def)
    with Cons.prems have "\<exists>m \<in> set ms. \<not> rule_valid compile prefix m" by auto
    from Cons.IH [OF this] obtain pre m post e where
      d: "ms = pre @ m # post" "\<forall>x \<in> set pre. rule_valid compile prefix x" "compile prefix m = Inl e"
      by blast
    have "a # ms = (a # pre) @ m # post \<and> (\<forall>x \<in> set (a # pre). rule_valid compile prefix x) \<and>
        compile prefix m = Inl e"
      using d va by simp
    then show ?thesis by blast
  qed
qed

lemma evaluate_decode_failure:
  assumes "Body r = Inr data" and "decoder a data zero_review = (Some err, req)"
  shows "evaluate a admit r =
     Return (req, zero_review\<lparr>Response := Some \<lparr>Response_UID = [], Allowed = False,
             Result = Some \<lparr>Status = StatusFailure, Message = Error err\<rparr>\<rparr>\<rparr>,
        [(LevelError, [(''msg'', ''decoding request body''), (''err'', Error err)])])"
  using assms by (simp add: evaluate_def)

subsection \<open>Log levels\<close>

lemma join_levels: "strings_Join validLogLevels '', '' = ''debug, info, warn, error''"
  by (simp add: validLogLevels_def logLevelDebug_def logLevelInfo_def logLevelWarn_def
      logLevelError_def)

lemma setupLogger_unknown:
  assumes "lvl \<noteq> ''debug''" "lvl \<noteq> ''info''" "lvl \<noteq> ''warn''" "lvl \<noteq> ''error''"
  shows "setupLogger quote lvl k =
          ((None, Some (Errorf (''log level '' @ quote lvl @
              '' unknown, must be one of (debug, info, warn, error)''))), k)"
proof -
  have "setupLogger quote lvl k =
      ((None, Some (Errorf (''log level '' @ quote lvl @ '' unknown, must be one of ('' @
                 strings_Join validLogLevels '', '' @ '')''))), k)"
    unfolding setupLogger_def Let_def logLevelDebug_def logLevelInfo_def logLevelWarn_def
      logLevelError_def
    using assms by (simp only: if_False option.case)
  then show ?thesis
    by (simp only: join_levels append.simps append_assoc)
qed

lemma setupLogger_known:
  "\<exists>l. fst (setupLogger quote ''debug'' k) = (Some l, None)"
  "\<exists>l. fst (setupLogger quote ''info'' k) = (Some l, None)"
  "\<exists>l. fst (setupLogger quote ''warn'' k) = (Some l, None)"
  "\<exists>l. fst (setupLogger quote ''error'' k) = (Some l, None)"
  by (simp_all add: setupLogger_def Let_def logLevelDebug_def logLevelInfo_def logLevelWarn_def
      logLevelError_def)

subsection \<open>Decision mapper\<close>

text \<open>
  C5. For every error value \<open>err\<close>, \<open>toAdmissionResponse\<close> returns a denial: \<open>Allowed\<close> is
  false, the result's status is the failure status, and the result's message is
  \<open>err.Error()\<close>.
\<close>

theorem toAdmissionResponse_denial:
  "toAdmissionResponse (Some err) =
     Return \<lparr>Response_UID = [], Allowed = False,
             Result = Some \<lparr>Status = ''Failure'', Message = Error err\<rparr>\<rparr>"
  by (simp add: StatusFailure_def)

subsection \<open>Validators\<close>

text \<open>
  C2. When the review's resource identity differs from the one the validator expects, the
  validator returns the error \<open>expected resource to be X, but received Y\<close>, with \<open>X\<close> the
  expected and \<open>Y\<close> the received identity. The result is the same whatever the
  deserializer \<open>u\<close> is: the payload is not deserialized.
\<close>

theorem admit_resource_mismatch:
  assumes "Request ar = Some rq"
  shows "(Request_Resource rq \<noteq> PodMonitoringResource env \<longrightarrow>
            admitPodMonitoring (env\<lparr>Unmarshal_PodMonitoring := u\<rparr>) ar =
              Return (None, Some (Errorf (''expected resource to be '' @
                Sprint_v (PodMonitoringResource env) @ '', but received '' @
                Sprint_v (Request_Resource rq)))))
       \<and> (Request_Resource rq \<noteq> ServiceMonitoringResource env \<longrightarrow>
            admitServiceMonitoring (env\<lparr>Unmarshal_ServiceMonitoring := u\<rparr>) ar =
              Return (None, Some (Errorf (''expected resource to be '' @
                Sprint_v (ServiceMonitoringResource env) @ '', but received '' @
                Sprint_v (Request_Resource rq)))))"
  using assms by (simp add: admitPodMonitoring_def admitServiceMonitoring_def)

theorem admit_resource_mismatch_witness:
  "admitPodMonitoring (example_env\<lparr>Unmarshal_PodMonitoring := example_unmarshal\<rparr>)
      (example_review (Some (example_request ''uid-1'' example_other_resource ''valid''))) =
     Return (None, Some (Errorf (''expected resource to be '' @
       ''{monitoring.googleapis.com v1alpha1 podmonitorings}'' @ '', but received '' @
       ''{apps v1 deployments}'')))
   \<and> admitServiceMonitoring (example_env\<lparr>Unmarshal_ServiceMonitoring := example_unmarshal\<rparr>)
      (example_review (Some (example_request ''uid-1'' example_other_resource ''valid''))) =
     Return (None, Some (Errorf (''expected resource to be '' @
       ''{monitoring.googleapis.com v1alpha1 servicemonitorings}'' @ '', but received '' @
       ''{apps v1 deployments}'')))"
proof -
  let ?rq = "example_request ''uid-1'' example_other_resource ''valid''"
  have 1: "Request (example_review (Some ?rq)) = Some ?rq"
    by (simp add: example_review_def)
  have 2: "Request_Resource ?rq \<noteq> PodMonitoringResource example_env"
    by (simp add: example_request_def example_env_def example_other_resource_def
        example_pod_resource_def)
  have 3: "Request_Resource ?rq \<noteq> ServiceMonitoringResource example_env"
    by (simp add: example_request_def example_env_def example_other_resource_def
        example_service_resource_def)
  from admit_resource_mismatch [OF 1, of example_env example_unmarshal] 2 3
  show ?thesis
    by (simp add: example_request_def example_env_def example_other_resource_def
        example_pod_resource_def example_service_resource_def Sprint_v_def)
qed

text \<open>
  C6. A pod-scoped review with the expected identity, whose payload deserializes and whose
  pod-sourced rules are all valid, is allowed: the decision carries no result and there
  is no error.
\<close>

theorem admitPodMonitoring_allows:
  assumes "Request ar = Some rq"
    and "Request_Resource rq = PodMonitoringResource env"
    and "Unmarshal_PodMonitoring env (Raw (Request_Object rq)) = Inr pm"
    and "\<forall>m \<in> set (FromPod (TargetLabels (Spec pm))).
           rule_valid (relabelConfig env) (podLabelPrefix env) m"
  shows "admitPodMonitoring env ar =
           Return (Some \<lparr>Response_UID = [], Allowed = True, Result = None\<rparr>, None)"
proof -
  from rules_all_valid [OF assms(4)] obtain cs where
    "labelMappingRelabelConfigs (relabelConfig env) (FromPod (TargetLabels (Spec pm)))
       (podLabelPrefix env) = Inr cs"
    by blast
  with assms(1,2,3) show ?thesis by (simp add: admitPodMonitoring_def)
qed

theorem admitPodMonitoring_allows_witness:
  "admitPodMonitoring example_env
      (example_review (Some (example_request ''uid-1'' example_pod_resource ''valid''))) =
     Return (Some \<lparr>Response_UID = [], Allowed = True, Result = None\<rparr>, None)"
proof -
  let ?rq = "example_request ''uid-1'' example_pod_resource ''valid''"
  let ?pm = "example_monitoring [rule_app] [rule_app]"
  have 1: "Request (example_review (Some ?rq)) = Some ?rq"
    by (simp add: example_review_def)
  have 2: "Request_Resource ?rq = PodMonitoringResource example_env"
    by (simp add: example_request_def example_env_def)
  have 3: "Unmarshal_PodMonitoring example_env (Raw (Request_Object ?rq)) = Inr ?pm"
    by (simp add: example_env_def example_request_def example_unmarshal_def)
  have 4: "\<forall>m \<in> set (FromPod (TargetLabels (Spec ?pm))).
           rule_valid (relabelConfig example_env) (podLabelPrefix example_env) m"
    by (simp add: example_monitoring_def example_env_def rule_valid_def example_compile_def rule_app_def)
  show ?thesis by (rule admitPodMonitoring_allows [OF 1 2 3 4])
qed

text \<open>
  C3. A service-scoped resource whose pod-sourced rules are all valid and which has an
  invalid service-sourced rule is refused with an error; when the review has the expected
  identity it is the error of the service-side check.
\<close>

theorem service_rules_checked:
  assumes "Request ar = Some rq"
    and "Unmarshal_ServiceMonitoring env (Raw (Request_Object rq)) = Inr sm"
    and "\<forall>m \<in> set (FromPod (TargetLabels (Spec sm))).
           rule_valid (relabelConfig env) (podLabelPrefix env) m"
    and "\<exists>m \<in> set (FromService (TargetLabels (Spec sm))).
           \<not> rule_valid (relabelConfig env) (serviceLabelPrefix env) m"
  shows "\<exists>err. admitServiceMonitoring env ar = Return (None, Some err) \<and>
           (Request_Resource rq = ServiceMonitoringResource env \<longrightarrow>
              (\<exists>e. err = Wrap e ''checking service label mappings''))"
proof -
  from rules_all_valid [OF assms(3)] obtain cs where
    pod: "labelMappingRelabelConfigs (relabelConfig env) (FromPod (TargetLabels (Spec sm)))
            (podLabelPrefix env) = Inr cs"
    by blast
  from rules_some_invalid [OF assms(4)] obtain pre m post e where
    d: "FromService (TargetLabels (Spec sm)) = pre @ m # post"
       "\<forall>x \<in> set pre. rule_valid (relabelConfig env) (serviceLabelPrefix env) x"
       "relabelConfig env (serviceLabelPrefix env) m = Inl e"
    by blast
  have svc: "labelMappingRelabelConfigs (relabelConfig env) (FromService (TargetLabels (Spec sm)))
            (serviceLabelPrefix env) = Inl e"
    using rules_first_invalid [OF d(2) d(3)] d(1) by simp
  show ?thesis
    using assms(1,2) pod svc by (simp add: admitServiceMonitoring_def)
qed

theorem service_rules_checked_witness:
  "admitServiceMonitoring example_env
      (example_review (Some (example_request ''uid-1'' example_service_resource ''bad-service-rule''))) =
     Return (None, Some (Wrap (Errorf ''empty source for first'') ''checking service label mappings''))"
proof -
  let ?rq = "example_request ''uid-1'' example_service_resource ''bad-service-rule''"
  let ?sm = "example_monitoring [rule_app] [rule_app, rule_bad1]"
  have 1: "Request (example_review (Some ?rq)) = Some ?rq"
    by (simp add: example_review_def)
  have 2: "Unmarshal_ServiceMonitoring example_env (Raw (Request_Object ?rq)) = Inr ?sm"
    by (simp add: example_env_def example_request_def example_unmarshal_def)
  have 3: "\<forall>m \<in> set (FromPod (TargetLabels (Spec ?sm))).
           rule_valid (relabelConfig example_env) (podLabelPrefix example_env) m"
    by (simp add: example_monitoring_def example_env_def rule_valid_def example_compile_def rule_app_def)
  have 4: "\<exists>m \<in> set (FromService (TargetLabels (Spec ?sm))).
           \<not> rule_valid (relabelConfig example_env) (serviceLabelPrefix example_env) m"
    by (simp add: example_monitoring_def example_env_def rule_valid_def example_compile_def rule_bad1_def)
  from service_rules_checked [OF 1 2 3 4] obtain err where
    "admitServiceMonitoring example_env (example_review (Some ?rq)) = Return (None, Some err)"
    by blast
  then show ?thesis
    by (simp add: admitServiceMonitoring_def example_review_def example_request_def example_env_def
        example_unmarshal_def example_monitoring_def example_compile_def rule_app_def rule_bad1_def
        split: if_splits)
qed

text \<open>
  C7. A review with a nested request whose payload deserializes into a resource with an
  invalid rule in a list the validator checks is refused. When the review has the expected
  identity, the error is the one of the first invalid rule in declaration order: the list
  splits into valid rules, the invalid rule \<open>m\<close> whose error \<open>e\<close> is reported, and a
  rest that plays no part. The pod validator checks \<open>FromPod\<close>; the service validator
  checks \<open>FromPod\<close>, then \<open>FromService\<close>. A validator reads nothing of the review
  but its nested request, so two runs on the same request give the same result.
\<close>

theorem invalid_rule_fails_first:
  assumes "Request ar = Some rq"
  shows "(Unmarshal_PodMonitoring env (Raw (Request_Object rq)) = Inr mon \<and>
          (\<exists>x \<in> set (FromPod (TargetLabels (Spec mon))).
              \<not> rule_valid (relabelConfig env) (podLabelPrefix env) x) \<longrightarrow>
          (\<exists>err. admitPodMonitoring env ar = Return (None, Some err)) \<and>
          (Request_Resource rq = PodMonitoringResource env \<longrightarrow>
            (\<exists>pre m post e.
                FromPod (TargetLabels (Spec mon)) = pre @ m # post \<and>
                (\<forall>x \<in> set pre. rule_valid (relabelConfig env) (podLabelPrefix env) x) \<and>
                relabelConfig env (podLabelPrefix env) m = Inl e \<and>
                admitPodMonitoring env ar =
                  Return (None, Some (Wrap e ''checking label mappings'')))))
       \<and> (Unmarshal_ServiceMonitoring env (Raw (Request_Object rq)) = Inr mon \<and>
          (\<exists>x \<in> set (FromPod (TargetLabels (Spec mon))).
              \<not> rule_valid (relabelConfig env) (podLabelPrefix env) x) \<longrightarrow>
          (\<exists>err. admitServiceMonitoring env ar = Return (None, Some err)) \<and>
          (Request_Resource rq = ServiceMonitoringResource env \<longrightarrow>
            (\<exists>pre m post e.
                FromPod (TargetLabels (Spec mon)) = pre @ m # post \<and>
                (\<forall>x \<in> set pre. rule_valid (relabelConfig env) (podLabelPrefix env) x) \<and>
                relabelConfig env (podLabelPrefix env) m = Inl e \<and>
                admitServiceMonitoring env ar =
                  Return (None, Some (Wrap e ''checking pod label mappings'')))))
       \<and> (Unmarshal_ServiceMonitoring env (Raw (Request_Object rq)) = Inr mon \<and>
          (\<forall>x \<in> set (FromPod (TargetLabels (Spec mon))).
              rule_valid (relabelConfig env) (podLabelPrefix env) x) \<and>
          (\<exists>x \<in> set (FromService (TargetLabels (Spec mon))).
              \<not> rule_valid (relabelConfig env) (serviceLabelPrefix env) x) \<longrightarrow>
          (\<exists>err. admitServiceMonitoring env ar = Return (None, Some err)) \<and>
          (Request_Resource rq = ServiceMonitoringResource env \<longrightarrow>
            (\<exists>pre m post e.
                FromService (TargetLabels (Spec mon)) = pre @ m # post \<and>
                (\<forall>x \<in> set pre. rule_valid (relabelConfig env) (serviceLabelPrefix env) x) \<and>
                relabelConfig env (serviceLabelPrefix env) m = Inl e \<and>
                admitServiceMonitoring env ar =
                  Return (None, Some (Wrap e ''checking service label mappings'')))))
       \<and> (Request ar' = Request ar \<longrightarrow>
            admitPodMonitoring env ar' = admitPodMonitoring env ar \<and>
            admitServiceMonitoring env ar' = admitServiceMonitoring env ar)"
    (is "(?P1 \<longrightarrow> ?F1 \<and> (?I1 \<longrightarrow> ?Q1)) \<and> (?P2 \<longrightarrow> ?F2 \<and> (?I2 \<longrightarrow> ?Q2)) \<and>
         (?P3 \<longrightarrow> ?F3 \<and> (?I3 \<longrightarrow> ?Q3)) \<and> ?D")
proof -
  have pod: "?P1 \<longrightarrow> ?F1 \<and> (?I1 \<longrightarrow> ?Q1)"
  proof (intro impI)
    assume h: ?P1
    then obtain pre m post e where
      d: "FromPod (TargetLabels (Spec mon)) = pre @ m # post"
         "\<forall>x \<in> set pre. rule_valid (relabelConfig env) (podLabelPrefix env) x"
         "relabelConfig env (podLabelPrefix env) m = Inl e"
      using rules_some_invalid [of "FromPod (TargetLabels (Spec mon))" "relabelConfig env"
          "podLabelPrefix env"]
      by blast
    have bad: "labelMappingRelabelConfigs (relabelConfig env)
        (FromPod (TargetLabels (Spec mon))) (podLabelPrefix env) = Inl e"
      using rules_first_invalid [OF d(2) d(3)] d(1) by simp
    have match: "?I1 \<longrightarrow> admitPodMonitoring env ar =
        Return (None, Some (Wrap e ''checking label mappings''))"
      using assms h bad by (simp add: admitPodMonitoring_def)
    have fails: ?F1
      using assms h bad by (simp add: admitPodMonitoring_def)
    from match d have "?I1 \<longrightarrow> ?Q1" by blast
    with fails show "?F1 \<and> (?I1 \<longrightarrow> ?Q1)" by (rule conjI)
  qed
  have svc_pod: "?P2 \<longrightarrow> ?F2 \<and> (?I2 \<longrightarrow> ?Q2)"
  proof (intro impI)
    assume h: ?P2
    then obtain pre m post e where
      d: "FromPod (TargetLabels (Spec mon)) = pre @ m # post"
         "\<forall>x \<in> set pre. rule_valid (relabelConfig env) (podLabelPrefix env) x"
         "relabelConfig env (podLabelPrefix env) m = Inl e"
      using rules_some_invalid [of "FromPod (TargetLabels (Spec mon))" "relabelConfig env"
          "podLabelPrefix env"]
      by blast
    have bad: "labelMappingRelabelConfigs (relabelConfig env)
        (FromPod (TargetLabels (Spec mon))) (podLabelPrefix env) = Inl e"
      using rules_first_invalid [OF d(2) d(3)] d(1) by simp
    have match: "?I2 \<longrightarrow> admitServiceMonitoring env ar =
        Return (None, Some (Wrap e ''checking pod label mappings''))"
      using assms h bad by (simp add: admitServiceMonitoring_def)
    have fails: ?F2
      using assms h bad by (simp add: admitServiceMonitoring_def)
    from match d have "?I2 \<longrightarrow> ?Q2" by blast
    with fails show "?F2 \<and> (?I2 \<longrightarrow> ?Q2)" by (rule conjI)
  qed
  have svc_svc: "?P3 \<longrightarrow> ?F3 \<and> (?I3 \<longrightarrow> ?Q3)"
  proof (intro impI)
    assume h: ?P3
    then obtain pre m post e where
      d: "FromService (TargetLabels (Spec mon)) = pre @ m # post"
         "\<forall>x \<in> set pre. rule_valid (relabelConfig env) (serviceLabelPrefix env) x"
         "relabelConfig env (serviceLabelPrefix env) m = Inl e"
      using rules_some_invalid [of "FromService (TargetLabels (Spec mon))" "relabelConfig env"
          "serviceLabelPrefix env"]
      by blast
    from h have "\<forall>x \<in> set (FromPod (TargetLabels (Spec mon))).
        rule_valid (relabelConfig env) (podLabelPrefix env) x"
      by blast
    from rules_all_valid [OF this] obtain cs where
      good: "labelMappingRelabelConfigs (relabelConfig env)
         (FromPod (TargetLabels (Spec mon))) (podLabelPrefix env) = Inr cs"
      by blast
    have bad: "labelMappingRelabelConfigs (relabelConfig env)
        (FromService (TargetLabels (Spec mon))) (serviceLabelPrefix env) = Inl e"
      using rules_first_invalid [OF d(2) d(3)] d(1) by simp
    have match: "?I3 \<longrightarrow> admitServiceMonitoring env ar =
        Return (None, Some (Wrap e ''checking service label mappings''))"
      using assms h good bad by (simp add: admitServiceMonitoring_def)
    have fails: ?F3
      using assms h good bad by (simp add: admitServiceMonitoring_def)
    from match d have "?I3 \<longrightarrow> ?Q3" by blast
    with fails show "?F3 \<and> (?I3 \<longrightarrow> ?Q3)" by (rule conjI)
  qed
  have det: ?D
    by (simp add: admitPodMonitoring_def admitServiceMonitoring_def)
  from pod svc_pod svc_svc det show ?thesis by (intro conjI)
qed

text \<open>
  The pod validator reads \<open>FromPod\<close> only: a pod-scoped resource whose invalid rule is
  service-sourced is allowed. The identity check comes first: on a review routed to the
  wrong validator the error is the identity mismatch, whatever the rules are.
\<close>

theorem invalid_rule_fails_first_counterexample:
  "example_unmarshal ''bad-service-rule'' =
     Inr (example_monitoring [rule_app] [rule_app, rule_bad1])
   \<and> example_compile (serviceLabelPrefix example_env) rule_bad1 =
     Inl (Errorf ''empty source for first'')
   \<and> admitPodMonitoring example_env
      (example_review (Some (example_request ''uid-4'' example_pod_resource ''bad-service-rule''))) =
     Return (Some \<lparr>Response_UID = [], Allowed = True, Result = None\<rparr>, None)
   \<and> admitPodMonitoring example_env
      (example_review (Some (example_request ''uid-4'' example_service_resource ''bad-pod-rules''))) =
     Return (None, Some (Errorf (''expected resource to be '' @
       ''{monitoring.googleapis.com v1alpha1 podmonitorings}'' @ '', but received '' @
       ''{monitoring.googleapis.com v1alpha1 servicemonitorings}'')))"
  by (simp add: admitPodMonitoring_def example_review_def example_request_def example_env_def
      example_unmarshal_def example_monitoring_def example_compile_def rule_app_def
      rule_bad1_def example_pod_resource_def example_service_resource_def Sprint_v_def)

theorem invalid_rule_fails_first_witness:
  "admitPodMonitoring example_env
      (example_review (Some (example_request ''uid-2'' example_pod_resource ''bad-pod-rules''))) =
     Return (None, Some (Wrap (Errorf ''empty source for first'') ''checking label mappings''))
   \<and> admitServiceMonitoring example_env
      (example_review (Some (example_request ''uid-2'' example_service_resource ''bad-pod-rules''))) =
     Return (None, Some (Wrap (Errorf ''empty source for first'') ''checking pod label mappings''))
   \<and> admitServiceMonitoring example_env
      (example_review (Some (example_request ''uid-2'' example_service_resource ''bad-service-rule''))) =
     Return (None, Some (Wrap (Errorf ''empty source for first'') ''checking service label mappings''))
   \<and> admitPodMonitoring example_env
      ((example_review (Some (example_request ''uid-2'' example_pod_resource ''bad-pod-rules'')))
         \<lparr>Kind := ''Other''\<rparr>) =
     admitPodMonitoring example_env
      (example_review (Some (example_request ''uid-2'' example_pod_resource ''bad-pod-rules'')))"
proof -
  let ?p = "example_request ''uid-2'' example_pod_resource ''bad-pod-rules''"
  let ?s = "example_request ''uid-2'' example_service_resource ''bad-pod-rules''"
  let ?t = "example_request ''uid-2'' example_service_resource ''bad-service-rule''"
  let ?m1 = "example_monitoring [rule_app, rule_bad1, rule_bad2] [rule_bad2]"
  let ?m2 = "example_monitoring [rule_app] [rule_app, rule_bad1]"
  note defs = example_review_def example_request_def example_env_def example_unmarshal_def
    example_monitoring_def example_compile_def rule_valid_def rule_app_def rule_bad1_def
    rule_bad2_def
  have p: "Unmarshal_PodMonitoring example_env (Raw (Request_Object ?p)) = Inr ?m1 \<and>
      (\<exists>x \<in> set (FromPod (TargetLabels (Spec ?m1))).
          \<not> rule_valid (relabelConfig example_env) (podLabelPrefix example_env) x)"
    and pi: "Request_Resource ?p = PodMonitoringResource example_env"
    by (simp_all add: defs)
  have s: "Unmarshal_ServiceMonitoring example_env (Raw (Request_Object ?s)) = Inr ?m1 \<and>
      (\<exists>x \<in> set (FromPod (TargetLabels (Spec ?m1))).
          \<not> rule_valid (relabelConfig example_env) (podLabelPrefix example_env) x)"
    and si: "Request_Resource ?s = ServiceMonitoringResource example_env"
    by (simp_all add: defs)
  have t: "Unmarshal_ServiceMonitoring example_env (Raw (Request_Object ?t)) = Inr ?m2 \<and>
      (\<forall>x \<in> set (FromPod (TargetLabels (Spec ?m2))).
          rule_valid (relabelConfig example_env) (podLabelPrefix example_env) x) \<and>
      (\<exists>x \<in> set (FromService (TargetLabels (Spec ?m2))).
          \<not> rule_valid (relabelConfig example_env) (serviceLabelPrefix example_env) x)"
    and ti: "Request_Resource ?t = ServiceMonitoringResource example_env"
    by (simp_all add: defs)
  have rp: "Request (example_review (Some ?p)) = Some ?p"
    and rs: "Request (example_review (Some ?s)) = Some ?s"
    and rt: "Request (example_review (Some ?t)) = Some ?t"
    and rk: "Request ((example_review (Some ?p))\<lparr>Kind := ''Other''\<rparr>) =
       Request (example_review (Some ?p))"
    by (simp_all add: example_review_def)
  from invalid_rule_fails_first [OF rp, of example_env ?m1] p pi
  obtain e1 where "admitPodMonitoring example_env (example_review (Some ?p)) =
      Return (None, Some (Wrap e1 ''checking label mappings''))"
    by blast
  moreover from invalid_rule_fails_first [OF rs, of example_env ?m1] s si
  obtain e2 where "admitServiceMonitoring example_env (example_review (Some ?s)) =
      Return (None, Some (Wrap e2 ''checking pod label mappings''))"
    by blast
  moreover from invalid_rule_fails_first [OF rt, of example_env ?m2] t ti
  obtain e3 where "admitServiceMonitoring example_env (example_review (Some ?t)) =
      Return (None, Some (Wrap e3 ''checking service label mappings''))"
    by blast
  moreover from invalid_rule_fails_first [OF rp, of example_env ?m1
      "(example_review (Some ?p))\<lparr>Kind := ''Other''\<rparr>"] rk
  have "admitPodMonitoring example_env ((example_review (Some ?p))\<lparr>Kind := ''Other''\<rparr>) =
      admitPodMonitoring example_env (example_review (Some ?p))"
    by blast
  ultimately show ?thesis
    by (simp add: admitPodMonitoring_def admitServiceMonitoring_def defs)
qed

subsection \<open>Protocol handler\<close>

text \<open>
  C1. When the body is decoded without error into an envelope whose nested
  request is present, and the validator returns an error or a decision, the response
  envelope carries the request's API version, kind and UID, on denial as on allowance.
\<close>

theorem serveAdmission_echo:
  assumes "Body r = Inr data"
    and "decoder a data zero_review = (None, req)"
    and "Request req = Some rq"
    and "admit req = Return (ar, e)"
    and "e \<noteq> None \<or> ar \<noteq> None"
  shows "\<exists>res d. serveAdmission a admit marshal write r = Return res \<and>
           APIVersion (envelope res) = APIVersion req \<and>
           Kind (envelope res) = Kind req \<and>
           Response (envelope res) = Some d \<and>
           Response_UID d = Request_UID rq \<and>
           (case e of
              Some err \<Rightarrow> Allowed d = False \<and>
                 Result d = Some \<lparr>Status = StatusFailure, Message = Error err\<rparr>
            | None \<Rightarrow> (\<exists>d0. ar = Some d0 \<and> d = d0\<lparr>Response_UID := Request_UID rq\<rparr>))"
proof (cases e)
  case None
  with assms(5) obtain d0 where ar: "ar = Some d0" by auto
  have "evaluate a admit r = Return (req, zero_review\<lparr>Response := Some d0\<rparr>, [])"
    using assms(1,2,4) None ar by (simp add: evaluate_def)
  then show ?thesis
    using assms(3) None ar
    by (simp add: serveAdmission_def echo_def respond_def zero_review_def
        split: sum.splits option.splits)
next
  case (Some err)
  have "evaluate a admit r =
      Return (req, zero_review\<lparr>Response := Some \<lparr>Response_UID = [], Allowed = False,
             Result = Some \<lparr>Status = StatusFailure, Message = Error err\<rparr>\<rparr>\<rparr>,
        [(LevelError, [(''msg'', ''admitting admission request''), (''err'', Error err)])])"
    using assms(1,2,4) Some by (simp add: evaluate_def)
  then show ?thesis
    using assms(3) Some
    by (simp add: serveAdmission_def echo_def respond_def zero_review_def
        split: sum.splits option.splits)
qed

text \<open>
  The echo is guarded by \<open>req.Request != nil\<close>: a body that decodes without error into an
  envelope with no nested request gets no echo from a validator that returns, and the
  two validators of the package panic on it.
\<close>

theorem serveAdmission_echo_counterexample:
  "example_decoder ''no-request'' zero_review =
     (None, \<lparr>APIVersion = ''admission.k8s.io/v1'', Kind = ''AdmissionReview'',
             Request = None, Response = None\<rparr>)
   \<and> serveAdmission example_server admit_always example_marshal example_write
       (example_http ''no-request'') =
     Return \<lparr>envelope = \<lparr>APIVersion = [], Kind = [], Request = None,
                Response = Some \<lparr>Response_UID = [], Allowed = True, Result = None\<rparr>\<rparr>,
             written = Some ''/'',
             logged = [(LevelDebug, [(''msg'', ''webhook called''), (''method'', ''POST''),
                         (''host'', ''operator''), (''path'', ''/validate'')])]\<rparr>
   \<and> serveAdmission example_server (admitPodMonitoring example_env) example_marshal example_write
       (example_http ''no-request'') = Panic NilPointerDereference"
  by (simp add: serveAdmission_def evaluate_def echo_def respond_def zero_review_def
      example_server_def example_decoder_def example_review_def example_http_def
      example_marshal_def example_write_def admit_always_def admitPodMonitoring_def)

theorem serveAdmission_echo_witness:
  "\<exists>res. serveAdmission example_server (admitPodMonitoring example_env) example_marshal
            example_write (example_http ''pod-valid'') = Return res \<and>
      APIVersion (envelope res) = ''admission.k8s.io/v1'' \<and>
      Kind (envelope res) = ''AdmissionReview'' \<and>
      Response (envelope res) = Some \<lparr>Response_UID = ''uid-1'', Allowed = True, Result = None\<rparr>"
proof -
  let ?rq = "example_request ''uid-1'' example_pod_resource ''valid''"
  let ?ok = "Some \<lparr>Response_UID = [], Allowed = True, Result = None\<rparr>"
  have 1: "Body (example_http ''pod-valid'') = Inr ''pod-valid''"
    by (simp add: example_http_def)
  have 2: "decoder example_server ''pod-valid'' zero_review = (None, example_review (Some ?rq))"
    by (simp add: example_server_def example_decoder_def)
  have 3: "Request (example_review (Some ?rq)) = Some ?rq"
    by (simp add: example_review_def)
  have 4: "admitPodMonitoring example_env (example_review (Some ?rq)) = Return (?ok, None)"
    by (simp add: admitPodMonitoring_def example_review_def example_request_def example_env_def
        example_unmarshal_def example_monitoring_def example_compile_def rule_app_def)
  have 5: "(None :: error option) \<noteq> None \<or> ?ok \<noteq> None"
    by simp
  from serveAdmission_echo [where admit = "admitPodMonitoring example_env", OF 1 2 3 4 5,
      of example_marshal example_write]
  show ?thesis
    by (auto simp: example_review_def example_request_def)
qed

text \<open>
  C8. When the body fails to decode, the validator is not invoked (the result is
  the same for every validator) and the response is a denial carrying the decoder's
  error text; it carries no API version, kind or UID when the decoder left the nested
  request nil.
\<close>

theorem decode_failure_denied:
  assumes "Body r = Inr data"
    and "decoder a data zero_review = (Some err, req)"
  shows "serveAdmission a admit marshal write r = serveAdmission a admit' marshal write r
       \<and> (\<exists>res d. serveAdmission a admit marshal write r = Return res \<and>
            Response (envelope res) = Some d \<and> Allowed d = False \<and>
            Result d = Some \<lparr>Status = ''Failure'', Message = Error err\<rparr> \<and>
            (Request req = None \<longrightarrow>
               APIVersion (envelope res) = [] \<and> Kind (envelope res) = [] \<and>
               Response_UID d = []))"
proof -
  have same: "evaluate a admit r = evaluate a admit' r"
    by (simp add: evaluate_decode_failure [OF assms])
  have "\<exists>res d. serveAdmission a admit marshal write r = Return res \<and>
            Response (envelope res) = Some d \<and> Allowed d = False \<and>
            Result d = Some \<lparr>Status = ''Failure'', Message = Error err\<rparr> \<and>
            (Request req = None \<longrightarrow>
               APIVersion (envelope res) = [] \<and> Kind (envelope res) = [] \<and>
               Response_UID d = [])"
    by (simp add: serveAdmission_def evaluate_decode_failure [OF assms] echo_def respond_def
        zero_review_def StatusFailure_def split: sum.splits option.splits)
  with same show ?thesis by (simp add: serveAdmission_def)
qed

text \<open>
  The guard of the echo reads \<open>req.Request\<close>, not the decoder's error: a decoder that
  fails after having filled in the nested request gets its identity echoed on the denial.
\<close>

theorem decode_failure_denied_counterexample:
  "example_decoder ''type-error'' zero_review =
     (Some (Foreign ''cannot unmarshal number into field of type string''),
      \<lparr>APIVersion = ''admission.k8s.io/v1'', Kind = ''AdmissionReview'',
       Request = Some \<lparr>Request_UID = ''uid-3'', Request_Resource = example_pod_resource,
                       Request_Object = \<lparr>Raw = []\<rparr>\<rparr>,
       Response = None\<rparr>)
   \<and> serveAdmission example_server (admitPodMonitoring example_env) example_marshal example_write
       (example_http ''type-error'') =
     Return \<lparr>envelope = \<lparr>APIVersion = ''admission.k8s.io/v1'', Kind = ''AdmissionReview'',
                Request = None,
                Response = Some \<lparr>Response_UID = ''uid-3'', Allowed = False,
                  Result = Some \<lparr>Status = ''Failure'',
                    Message = ''cannot unmarshal number into field of type string''\<rparr>\<rparr>\<rparr>,
             written = Some ''admission.k8s.io/v1/AdmissionReview'',
             logged = [(LevelDebug, [(''msg'', ''webhook called''), (''method'', ''POST''),
                         (''host'', ''operator''), (''path'', ''/validate'')]),
                       (LevelError, [(''msg'', ''decoding request body''),
                         (''err'', ''cannot unmarshal number into field of type string'')])]\<rparr>"
  by (simp add: serveAdmission_def evaluate_def echo_def respond_def zero_review_def
      example_server_def example_decoder_def example_review_def example_request_def
      example_http_def example_marshal_def example_write_def StatusFailure_def)

theorem decode_failure_denied_witness:
  "serveAdmission example_server (admitPodMonitoring example_env) example_marshal example_write
       (example_http ''%%%'') =
   serveAdmission example_server admit_always example_marshal example_write (example_http ''%%%'')
   \<and> (\<exists>res. serveAdmission example_server (admitPodMonitoring example_env) example_marshal
          example_write (example_http ''%%%'') = Return res \<and>
        envelope res = \<lparr>APIVersion = [], Kind = [], Request = None,
           Response = Some \<lparr>Response_UID = [], Allowed = False,
             Result = Some \<lparr>Status = ''Failure'', Message = ''invalid character''\<rparr>\<rparr>\<rparr>)"
proof -
  have 1: "Body (example_http ''%%%'') = Inr ''%%%''"
    by (simp add: example_http_def)
  have 2: "decoder example_server ''%%%'' zero_review =
      (Some (Foreign ''invalid character''), zero_review)"
    by (simp add: example_server_def example_decoder_def)
  have 3: "Request zero_review = None"
    by (simp add: zero_review_def)
  from decode_failure_denied [where admit = "admitPodMonitoring example_env"
      and admit' = admit_always, OF 1 2, of example_marshal example_write] 3
  show ?thesis
    by (simp add: serveAdmission_def evaluate_def echo_def respond_def zero_review_def
      example_server_def example_decoder_def example_http_def example_marshal_def
      example_write_def StatusFailure_def)
qed

text \<open>
  C9. On a review whose nested request is nil both validators panic on the nil pointer
  instead of returning an error. The handler invokes the validator on such an envelope all
  the same: a panic of the validator is the handler's, and a validator that returns a
  decision sees it sent without the echo.
\<close>

theorem nil_request_panics:
  assumes "Request ar = None"
  shows "admitPodMonitoring env ar = Panic NilPointerDereference
       \<and> admitServiceMonitoring env ar = Panic NilPointerDereference
       \<and> (Body r = Inr data \<and> decoder a data zero_review = (None, ar) \<longrightarrow>
            serveAdmission a (admitPodMonitoring env) marshal write r =
              Panic NilPointerDereference \<and>
            serveAdmission a (admitServiceMonitoring env) marshal write r =
              Panic NilPointerDereference \<and>
            (admit ar = Panic p \<longrightarrow> serveAdmission a admit marshal write r = Panic p) \<and>
            (admit ar = Return (Some d, None) \<longrightarrow>
               (\<exists>res. serveAdmission a admit marshal write r = Return res \<and>
                  envelope res = zero_review\<lparr>Response := Some d\<rparr>)))"
  using assms
  by (simp add: admitPodMonitoring_def admitServiceMonitoring_def serveAdmission_def
      evaluate_def echo_def respond_def zero_review_def split: sum.splits option.splits)

theorem nil_request_panics_witness:
  "admitPodMonitoring example_env (example_review None) = Panic NilPointerDereference
   \<and> admitServiceMonitoring example_env (example_review None) = Panic NilPointerDereference
   \<and> serveAdmission example_server (admitPodMonitoring example_env) example_marshal example_write
        (example_http ''no-request'') = Panic NilPointerDereference
   \<and> serveAdmission example_server (admitServiceMonitoring example_env) example_marshal
        example_write (example_http ''no-request'') = Panic NilPointerDereference
   \<and> (\<exists>res. serveAdmission example_server admit_always example_marshal example_write
          (example_http ''no-request'') = Return res \<and>
        envelope res = \<lparr>APIVersion = [], Kind = [], Request = None,
           Response = Some \<lparr>Response_UID = [], Allowed = True, Result = None\<rparr>\<rparr>)"
proof -
  have 1: "Request (example_review None) = None"
    by (simp add: example_review_def)
  have 2: "Body (example_http ''no-request'') = Inr ''no-request'' \<and>
      decoder example_server ''no-request'' zero_review = (None, example_review None)"
    by (simp add: example_http_def example_server_def example_decoder_def)
  have 3: "admit_always (example_review None) =
      Return (Some \<lparr>Response_UID = [], Allowed = True, Result = None\<rparr>, None)"
    by (simp add: admit_always_def)
  from nil_request_panics [OF 1, of example_env "example_http ''no-request''" "''no-request''"
      example_server example_marshal example_write admit_always NilPointerDereference
      "\<lparr>Response_UID = [], Allowed = True, Result = None\<rparr>"] 2 3
  show ?thesis
    by (simp add: zero_review_def)
qed

subsection \<open>Logger setup\<close>

text \<open>
  C10. \<open>setupLogger\<close> returns a logger and no error exactly for the levels \<open>debug\<close>,
  \<open>info\<close>, \<open>warn\<close> and \<open>error\<close>; for any other level it returns no logger and an error
  that names the quoted level and lists the four valid levels.
\<close>

theorem setupLogger_levels:
  "((\<exists>l. fst (setupLogger quote lvl k) = (Some l, None)) \<longleftrightarrow>
      lvl \<in> {''debug'', ''info'', ''warn'', ''error''})
   \<and> (lvl \<notin> {''debug'', ''info'', ''warn'', ''error''} \<longrightarrow>
        setupLogger quote lvl k =
          ((None, Some (Errorf (''log level '' @ quote lvl @
              '' unknown, must be one of (debug, info, warn, error)''))), k))"
proof (cases "lvl \<in> {''debug'', ''info'', ''warn'', ''error''}")
  case True
  then have "lvl = ''debug'' \<or> lvl = ''info'' \<or> lvl = ''warn'' \<or> lvl = ''error''"
    by (simp only: insert_iff empty_iff simp_thms)
  then have "\<exists>l. fst (setupLogger quote lvl k) = (Some l, None)"
    using setupLogger_known [of quote k] by (elim disjE) (simp_all only:)
  with True show ?thesis by blast
next
  case False
  then have ne: "lvl \<noteq> ''debug''" "lvl \<noteq> ''info''" "lvl \<noteq> ''warn''" "lvl \<noteq> ''error''"
    by (simp_all only: insert_iff empty_iff simp_thms de_Morgan_disj)
  note bad = setupLogger_unknown [OF ne, of quote k]
  have "\<not> (\<exists>l. fst (setupLogger quote lvl k) = (Some l, None))"
    by (simp only: bad fst_conv prod.inject option.distinct simp_thms)
  with False bad show ?thesis by blast
qed

theorem setupLogger_levels_witness:
  "(\<exists>l. fst (setupLogger example_quote ''warn'' klog_initial) = (Some l, None))
   \<and> setupLogger example_quote ''trace'' klog_initial =
       ((None, Some (Errorf (''log level '' @ example_quote ''trace'' @
           '' unknown, must be one of (debug, info, warn, error)''))), klog_initial)"
proof -
  have 1: "''warn'' \<in> {''debug'', ''info'', ''warn'', ''error''}" by simp
  have 2: "''trace'' \<notin> {''debug'', ''info'', ''warn'', ''error''}" by simp
  have a: "\<exists>l. fst (setupLogger example_quote ''warn'' klog_initial) = (Some l, None)"
    using setupLogger_levels [of example_quote "''warn''" klog_initial,
        THEN conjunct1, THEN iffD2, OF 1] .
  have b: "setupLogger example_quote ''trace'' klog_initial =
       ((None, Some (Errorf (''log level '' @ example_quote ''trace'' @
           '' unknown, must be one of (debug, info, warn, error)''))), klog_initial)"
    using setupLogger_levels [of example_quote "''trace''" klog_initial,
        THEN conjunct2, THEN mp, OF 2] .
  from a b show ?thesis by (rule conjI)
qed

end
